theory Spec2Isabelle
  imports Complex_Main
begin

section \<open>Points and lines of \<^verbatim>\<open>chapter10/10.06/line.h\<close>\<close>

text \<open>
  The header works on C++ \<^verbatim>\<open>double\<close>. Two readings of the scalar type are given.

  In the first, the scalar type is \<^typ>\<open>real\<close>: every arithmetic operation is exact, there
  is no rounding, no overflow to infinity and no NaN. The two constants of the header are
  taken at their mathematical values: the literal \<^verbatim>\<open>1.e-10\<close> as \<open>1 / 10 ^ 10\<close>, and
  \<^verbatim>\<open>std::numeric_limits<double>::max()\<close> as \<open>(2 ^ 53 - 1) * 2 ^ 971\<close>. Decimal
  coordinates such as \<open>5.0000001\<close> or \<open>8e-11\<close> are likewise taken at their decimal value,
  not at the nearest double. This reading is the program as long as no intermediate result
  leaves the range of \<^verbatim>\<open>double\<close>.

  In the second, given after the first, the scalar type has the infinities and NaN of
  IEEE 754 and every operation overflows as the hardware does; rounding is still left out.
  It is used where a statement ranges over all finite coordinates and the overflow decides
  it, which is the case for the range of \<^verbatim>\<open>sine()\<close>.

  Two events of the C++ program are not values of type \<^verbatim>\<open>double\<close> or \<^verbatim>\<open>bool\<close>
  and are made explicit as errors: the failing \<^verbatim>\<open>assert\<close> of the constructor, and a
  division whose divisor is zero.
\<close>

definition epsilon :: real where
  "epsilon = 1 / 10 ^ 10"

definition dbl_max :: real where
  "dbl_max = (2 ^ 53 - 1) * 2 ^ 971"

record point =
  x :: real
  y :: real

text \<open>\<^verbatim>\<open>operator-(A, B)\<close>: the point \<open>A - B\<close>.\<close>

definition sub :: "point \<Rightarrow> point \<Rightarrow> point" where
  "sub P Q = \<lparr>x = x P - x Q, y = y P - y Q\<rparr>"

text \<open>\<^verbatim>\<open>operator*(A, B)\<close>: the dot product.\<close>

definition dot :: "point \<Rightarrow> point \<Rightarrow> real" where
  "dot P Q = x P * x Q + y P * y Q"

text \<open>\<^verbatim>\<open>norm(A)\<close>: \<^verbatim>\<open>std::sqrt(A * A)\<close>.\<close>

definition norm_point :: "point \<Rightarrow> real" where
  "norm_point P = sqrt (dot P P)"

text \<open>\<^verbatim>\<open>operator==(A, B)\<close> on points: \<^verbatim>\<open>norm(B - A) < epsilon\<close>.\<close>

definition point_eq :: "point \<Rightarrow> point \<Rightarrow> bool" where
  "point_eq P Q = (norm_point (sub Q P) < epsilon)"

text \<open>\<^verbatim>\<open>operator!=(A, B)\<close> on points: \<^verbatim>\<open>!(A == B)\<close>.\<close>

definition point_neq :: "point \<Rightarrow> point \<Rightarrow> bool" where
  "point_neq P Q = (\<not> point_eq P Q)"

datatype error = AssertionFailed | DivisionByZero

record line =
  A :: point
  B :: point

text \<open>
  The constructor \<^verbatim>\<open>line(__A, __B)\<close> initialises the two members and then runs
  \<^verbatim>\<open>assert(A != B)\<close>; a failing assertion aborts the program.
\<close>

definition mk_line :: "point \<Rightarrow> point \<Rightarrow> error + line" where
  "mk_line P Q = (if point_neq P Q then Inr \<lparr>A = P, B = Q\<rparr> else Inl AssertionFailed)"

text \<open>
  The operator \<^verbatim>\<open>/\<close> on two scalars. A zero divisor is undefined behaviour in the C++
  standard (an infinity or a NaN under IEEE 754); it is reported here as an error, so that
  its absence is a theorem about the queries and not an assumption of the model.
\<close>

definition fdiv :: "real \<Rightarrow> real \<Rightarrow> error + real" where
  "fdiv a b = (if b = 0 then Inl DivisionByZero else Inr (a / b))"

text \<open>\<^verbatim>\<open>line::sine()\<close>.\<close>

definition sine :: "line \<Rightarrow> error + real" where
  "sine l =
     (if \<bar>x (A l) - x (B l)\<bar> < epsilon then Inr 1
      else if x (B l) > x (A l) then fdiv (y (B l) - y (A l)) (norm_point (sub (B l) (A l)))
      else fdiv (y (A l) - y (B l)) (norm_point (sub (B l) (A l))))"

text \<open>\<^verbatim>\<open>line::x_intercept()\<close>.\<close>

definition x_intercept :: "line \<Rightarrow> error + real" where
  "x_intercept l =
     (if \<bar>y (A l) - y (B l)\<bar> < epsilon then Inr dbl_max
      else case fdiv (x (B l) - x (A l)) (y (B l) - y (A l)) of
             Inl e \<Rightarrow> Inl e
           | Inr m \<Rightarrow> Inr (x (A l) - m * y (A l)))"

text \<open>\<^verbatim>\<open>line::y_intercept()\<close>.\<close>

definition y_intercept :: "line \<Rightarrow> error + real" where
  "y_intercept l =
     (if \<bar>x (A l) - x (B l)\<bar> < epsilon then Inr dbl_max
      else case fdiv (y (B l) - y (A l)) (x (B l) - x (A l)) of
             Inl e \<Rightarrow> Inl e
           | Inr m \<Rightarrow> Inr (y (A l) - m * x (A l)))"

text \<open>\<^verbatim>\<open>line::crosses(C)\<close>.\<close>

definition crosses :: "line \<Rightarrow> point \<Rightarrow> bool" where
  "crosses l C =
     (if point_eq (A l) C \<or> point_eq (B l) C then True
      else let bc = norm_point (sub C (B l));
               ab = norm_point (sub (B l) (A l))
           in \<bar>\<bar>dot (sub (B l) (A l)) (sub C (B l))\<bar> - ab * bc\<bar> < epsilon * ab * bc)"

text \<open>\<^verbatim>\<open>operator==(r, s)\<close> on lines.\<close>

definition line_eq :: "line \<Rightarrow> line \<Rightarrow> bool" where
  "line_eq r s = (crosses r (A s) \<and> crosses r (B s))"

text \<open>\<^verbatim>\<open>operator!=(r, s)\<close> on lines.\<close>

definition line_neq :: "line \<Rightarrow> line \<Rightarrow> bool" where
  "line_neq r s = (\<not> line_eq r s)"

section \<open>The range of \<^verbatim>\<open>double\<close>: overflow, infinities and NaN\<close>

text \<open>
  A \<^verbatim>\<open>double\<close> is a finite number, one of the two infinities, or NaN. Signed zeros and
  subnormal numbers are not distinguished.
\<close>

datatype double = Fin real | PInf | NInf | NaN

text \<open>
  The exact result \<open>r\<close> of an operation on finite operands is stored as an infinity when
  round-to-nearest takes it out of range, that is when \<open>|r| \<ge> 2 ^ 1024 - 2 ^ 970\<close>, the
  midpoint between the largest finite double and \<open>2 ^ 1024\<close>; otherwise it is kept as it
  is.
\<close>

definition overflow_threshold :: real where
  "overflow_threshold = 2 ^ 1024 - 2 ^ 970"

definition of_exact :: "real \<Rightarrow> double" where
  "of_exact r =
     (if overflow_threshold \<le> r then PInf
      else if r \<le> - overflow_threshold then NInf
      else Fin r)"

text \<open>
  The operators \<^verbatim>\<open>+\<close>, \<^verbatim>\<open>-\<close>, \<^verbatim>\<open>*\<close> and \<^verbatim>\<open>/\<close> of IEEE 754: NaN propagates,
  \<open>inf - inf\<close>, \<open>0 * inf\<close> and \<open>inf / inf\<close> are NaN, a finite number divided by an
  infinity is \<open>0\<close>. A finite zero divisor is reported as the error \<open>DivisionByZero\<close>, as
  in \<open>fdiv\<close>.
\<close>

fun dadd :: "double \<Rightarrow> double \<Rightarrow> double" where
  "dadd NaN _ = NaN"
| "dadd _ NaN = NaN"
| "dadd (Fin a) (Fin b) = of_exact (a + b)"
| "dadd PInf NInf = NaN"
| "dadd NInf PInf = NaN"
| "dadd PInf _ = PInf"
| "dadd _ PInf = PInf"
| "dadd NInf _ = NInf"
| "dadd _ NInf = NInf"

fun dsub :: "double \<Rightarrow> double \<Rightarrow> double" where
  "dsub NaN _ = NaN"
| "dsub _ NaN = NaN"
| "dsub (Fin a) (Fin b) = of_exact (a - b)"
| "dsub PInf PInf = NaN"
| "dsub NInf NInf = NaN"
| "dsub PInf _ = PInf"
| "dsub _ NInf = PInf"
| "dsub NInf _ = NInf"
| "dsub _ PInf = NInf"

fun dmul :: "double \<Rightarrow> double \<Rightarrow> double" where
  "dmul NaN _ = NaN"
| "dmul _ NaN = NaN"
| "dmul (Fin a) (Fin b) = of_exact (a * b)"
| "dmul (Fin a) PInf = (if a = 0 then NaN else if 0 < a then PInf else NInf)"
| "dmul (Fin a) NInf = (if a = 0 then NaN else if 0 < a then NInf else PInf)"
| "dmul PInf (Fin b) = (if b = 0 then NaN else if 0 < b then PInf else NInf)"
| "dmul NInf (Fin b) = (if b = 0 then NaN else if 0 < b then NInf else PInf)"
| "dmul PInf PInf = PInf"
| "dmul NInf NInf = PInf"
| "dmul PInf NInf = NInf"
| "dmul NInf PInf = NInf"

fun ddiv :: "double \<Rightarrow> double \<Rightarrow> error + double" where
  "ddiv a (Fin b) =
     (if b = 0 then Inl DivisionByZero
      else case a of
             Fin c \<Rightarrow> Inr (of_exact (c / b))
           | PInf \<Rightarrow> Inr (if 0 < b then PInf else NInf)
           | NInf \<Rightarrow> Inr (if 0 < b then NInf else PInf)
           | NaN \<Rightarrow> Inr NaN)"
| "ddiv NaN _ = Inr NaN"
| "ddiv _ NaN = Inr NaN"
| "ddiv (Fin a) _ = Inr (Fin 0)"
| "ddiv _ _ = Inr NaN"

text \<open>\<^verbatim>\<open>std::sqrt\<close>, \<^verbatim>\<open>std::abs\<close> and the comparison \<^verbatim>\<open><\<close>, false on NaN.\<close>

fun dsqrt :: "double \<Rightarrow> double" where
  "dsqrt (Fin a) = (if a < 0 then NaN else Fin (sqrt a))"
| "dsqrt PInf = PInf"
| "dsqrt NInf = NaN"
| "dsqrt NaN = NaN"

fun dabs :: "double \<Rightarrow> double" where
  "dabs (Fin a) = Fin \<bar>a\<bar>"
| "dabs PInf = PInf"
| "dabs NInf = PInf"
| "dabs NaN = NaN"

fun dless :: "double \<Rightarrow> double \<Rightarrow> bool" where
  "dless NaN _ = False"
| "dless _ NaN = False"
| "dless (Fin a) (Fin b) = (a < b)"
| "dless _ NInf = False"
| "dless PInf _ = False"
| "dless _ _ = True"


text \<open>The structures and functions of the header once more, over \<^typ>\<open>double\<close>.\<close>

record point_d =
  x_d :: double
  y_d :: double

text \<open>\<^verbatim>\<open>operator-(A, B)\<close>, \<^verbatim>\<open>operator*(A, B)\<close> and \<^verbatim>\<open>norm(A)\<close>.\<close>

definition sub_d :: "point_d \<Rightarrow> point_d \<Rightarrow> point_d" where
  "sub_d P Q = \<lparr>x_d = dsub (x_d P) (x_d Q), y_d = dsub (y_d P) (y_d Q)\<rparr>"

definition dot_d :: "point_d \<Rightarrow> point_d \<Rightarrow> double" where
  "dot_d P Q = dadd (dmul (x_d P) (x_d Q)) (dmul (y_d P) (y_d Q))"

definition norm_d :: "point_d \<Rightarrow> double" where
  "norm_d P = dsqrt (dot_d P P)"

text \<open>\<^verbatim>\<open>operator==(A, B)\<close> and \<^verbatim>\<open>operator!=(A, B)\<close> on points.\<close>

definition point_eq_d :: "point_d \<Rightarrow> point_d \<Rightarrow> bool" where
  "point_eq_d P Q = dless (norm_d (sub_d Q P)) (Fin epsilon)"

definition point_neq_d :: "point_d \<Rightarrow> point_d \<Rightarrow> bool" where
  "point_neq_d P Q = (\<not> point_eq_d P Q)"

record line_d =
  A_d :: point_d
  B_d :: point_d

text \<open>The constructor \<^verbatim>\<open>line(__A, __B)\<close> with its assertion, and \<^verbatim>\<open>line::sine()\<close>.\<close>

definition mk_line_d :: "point_d \<Rightarrow> point_d \<Rightarrow> error + line_d" where
  "mk_line_d P Q = (if point_neq_d P Q then Inr \<lparr>A_d = P, B_d = Q\<rparr> else Inl AssertionFailed)"

definition sine_d :: "line_d \<Rightarrow> error + double" where
  "sine_d l =
     (if dless (dabs (dsub (x_d (A_d l)) (x_d (B_d l)))) (Fin epsilon) then Inr (Fin 1)
      else if dless (x_d (A_d l)) (x_d (B_d l))
      then ddiv (dsub (y_d (B_d l)) (y_d (A_d l))) (norm_d (sub_d (B_d l) (A_d l)))
      else ddiv (dsub (y_d (A_d l)) (y_d (B_d l))) (norm_d (sub_d (B_d l) (A_d l))))"

text \<open>A point and a line of the exact reading, seen as finite values of the second reading.\<close>

definition lift_point :: "point \<Rightarrow> point_d" where
  "lift_point P = \<lparr>x_d = Fin (x P), y_d = Fin (y P)\<rparr>"

definition lift_line :: "line \<Rightarrow> line_d" where
  "lift_line l = \<lparr>A_d = lift_point (A l), B_d = lift_point (B l)\<rparr>"

section \<open>Facts about the point algebra\<close>

lemma epsilon_pos: "0 < epsilon"
  by (simp add: epsilon_def)

lemma dot_self_nonneg: "0 \<le> dot P P"
  by (simp add: dot_def)

lemma norm_point_nonneg: "0 \<le> norm_point P"
  by (simp add: norm_point_def dot_self_nonneg)

lemma norm_point_sub_swap: "norm_point (sub P Q) = norm_point (sub Q P)"
proof -
  have "dot (sub P Q) (sub P Q) = dot (sub Q P) (sub Q P)"
    by (simp add: dot_def sub_def algebra_simps)
  then show ?thesis
    by (simp add: norm_point_def)
qed

lemma norm_point_sub_self: "norm_point (sub P P) = 0"
  by (simp add: norm_point_def dot_def sub_def)

lemma abs_x_le_norm_point: "\<bar>x P\<bar> \<le> norm_point P"
proof -
  have "(x P)\<^sup>2 \<le> dot P P"
    by (simp add: dot_def power2_eq_square)
  then have "sqrt ((x P)\<^sup>2) \<le> sqrt (dot P P)"
    by (rule real_sqrt_le_mono)
  then show ?thesis
    by (simp add: norm_point_def)
qed

lemma abs_y_le_norm_point: "\<bar>y P\<bar> \<le> norm_point P"
proof -
  have "(y P)\<^sup>2 \<le> dot P P"
    by (simp add: dot_def power2_eq_square)
  then have "sqrt ((y P)\<^sup>2) \<le> sqrt (dot P P)"
    by (rule real_sqrt_le_mono)
  then show ?thesis
    by (simp add: norm_point_def)
qed

lemma point_eq_sym: "point_eq P Q = point_eq Q P"
  by (simp add: point_eq_def norm_point_sub_swap [of P Q])

lemma point_eq_refl: "point_eq P P"
  by (simp add: point_eq_def norm_point_sub_self epsilon_pos)

lemma norm_point_x_axis: "norm_point \<lparr>x = a, y = 0\<rparr> = \<bar>a\<bar>"
  by (simp add: norm_point_def dot_def)

lemma norm_point_y_axis: "norm_point \<lparr>x = 0, y = b\<rparr> = \<bar>b\<bar>"
  by (simp add: norm_point_def dot_def)

lemma mk_line_Inr: "mk_line P Q = Inr l \<Longrightarrow> l = \<lparr>A = P, B = Q\<rparr> \<and> epsilon \<le> norm_point (sub Q P)"
  by (auto simp: mk_line_def point_neq_def point_eq_def split: if_splits)

lemma norm_point_ge_x_gap: "\<bar>x P - x Q\<bar> \<le> norm_point (sub Q P)"
  using abs_x_le_norm_point [of "sub Q P"] by (simp add: sub_def abs_minus_commute)

lemma norm_point_ge_y_gap: "\<bar>y P - y Q\<bar> \<le> norm_point (sub Q P)"
  using abs_y_le_norm_point [of "sub Q P"] by (simp add: sub_def abs_minus_commute)

lemma sine_divisor: "\<not> \<bar>x (A l) - x (B l)\<bar> < epsilon \<Longrightarrow> epsilon \<le> norm_point (sub (B l) (A l))"
  using norm_point_ge_x_gap [of "A l" "B l"] by simp

lemma sine_total:
  "sine l = Inr (if \<bar>x (A l) - x (B l)\<bar> < epsilon then 1
                 else if x (B l) > x (A l) then (y (B l) - y (A l)) / norm_point (sub (B l) (A l))
                 else (y (A l) - y (B l)) / norm_point (sub (B l) (A l)))"
proof (cases "\<bar>x (A l) - x (B l)\<bar> < epsilon")
  case True
  then show ?thesis by (simp add: sine_def)
next
  case False
  then have "0 < norm_point (sub (B l) (A l))"
    using sine_divisor [of l] epsilon_pos by simp
  with False show ?thesis by (simp add: sine_def fdiv_def)
qed

lemma x_intercept_total:
  "x_intercept l = Inr (if \<bar>y (A l) - y (B l)\<bar> < epsilon then dbl_max
                 else x (A l) - (x (B l) - x (A l)) / (y (B l) - y (A l)) * y (A l))"
proof (cases "\<bar>y (A l) - y (B l)\<bar> < epsilon")
  case True
  then show ?thesis by (simp add: x_intercept_def)
next
  case False
  then have "y (B l) - y (A l) \<noteq> 0"
    using epsilon_pos by auto
  with False show ?thesis by (simp add: x_intercept_def fdiv_def)
qed

lemma y_intercept_total:
  "y_intercept l = Inr (if \<bar>x (A l) - x (B l)\<bar> < epsilon then dbl_max
                 else y (A l) - (y (B l) - y (A l)) / (x (B l) - x (A l)) * x (A l))"
proof (cases "\<bar>x (A l) - x (B l)\<bar> < epsilon")
  case True
  then show ?thesis by (simp add: y_intercept_def)
next
  case False
  then have "x (B l) - x (A l) \<noteq> 0"
    using epsilon_pos by auto
  with False show ?thesis by (simp add: y_intercept_def fdiv_def)
qed

lemma mk_line_ok: "epsilon \<le> norm_point (sub Q P) \<Longrightarrow> mk_line P Q = Inr \<lparr>A = P, B = Q\<rparr>"
  by (simp add: mk_line_def point_neq_def point_eq_def)

lemma mk_line_horizontal:
  "epsilon \<le> \<bar>b - a\<bar> \<Longrightarrow>
   mk_line \<lparr>x = a, y = c\<rparr> \<lparr>x = b, y = c\<rparr> = Inr \<lparr>A = \<lparr>x = a, y = c\<rparr>, B = \<lparr>x = b, y = c\<rparr>\<rparr>"
  by (rule mk_line_ok) (simp add: sub_def norm_point_x_axis)

lemma mk_line_vertical:
  "epsilon \<le> \<bar>b - a\<bar> \<Longrightarrow>
   mk_line \<lparr>x = c, y = a\<rparr> \<lparr>x = c, y = b\<rparr> = Inr \<lparr>A = \<lparr>x = c, y = a\<rparr>, B = \<lparr>x = c, y = b\<rparr>\<rparr>"
  by (rule mk_line_ok) (simp add: sub_def norm_point_y_axis)

lemma crosses_unfold:
  "crosses \<lparr>A = P, B = Q\<rparr> C =
     (point_eq P C \<or> point_eq Q C \<or>
      \<bar>\<bar>dot (sub Q P) (sub C Q)\<bar> - norm_point (sub Q P) * norm_point (sub C Q)\<bar>
        < epsilon * norm_point (sub Q P) * norm_point (sub C Q))"
  by (simp add: crosses_def Let_def)

lemma norm_point_bounds:
  assumes "0 \<le> lo" and "lo\<^sup>2 \<le> dot P P" and "0 \<le> hi" and "dot P P \<le> hi\<^sup>2"
  shows "lo \<le> norm_point P \<and> norm_point P \<le> hi"
  unfolding norm_point_def using assms by (simp add: real_le_rsqrt real_le_lsqrt)

lemma point_eq_far_x: "epsilon \<le> \<bar>x P - x Q\<bar> \<Longrightarrow> \<not> point_eq P Q"
  using norm_point_ge_x_gap [of P Q] by (simp add: point_eq_def)

section \<open>Point equality\<close>

text \<open>
  Claim C8. Approximate equality of points, \<open>norm (Q - P) < epsilon\<close>, is reflexive and
  symmetric, and it is not transitive: there are points \<open>P\<close>, \<open>Q\<close>, \<open>R\<close> with
  \<open>P == Q\<close> and \<open>Q == R\<close> and \<open>P != R\<close>. The three points used are \<open>(0, 0)\<close>,
  \<open>(6e-11, 0)\<close> and \<open>(1.2e-10, 0)\<close>.
\<close>

theorem point_eq_laws:
  "(\<forall>P. point_eq P P) \<and> (\<forall>P Q. point_eq P Q = point_eq Q P) \<and>
   (\<exists>P Q R. point_eq P Q \<and> point_eq Q R \<and> point_neq P R)"
proof (intro conjI allI)
  fix P Q
  show "point_eq P P" by (rule point_eq_refl)
  show "point_eq P Q = point_eq Q P" by (rule point_eq_sym)
next
  let ?P = "\<lparr>x = 0, y = 0\<rparr>"
  let ?Q = "\<lparr>x = 6 / 10 ^ 11, y = 0\<rparr>"
  let ?R = "\<lparr>x = 12 / 10 ^ 11, y = 0\<rparr>"
  have "point_eq ?P ?Q" "point_eq ?Q ?R" "point_neq ?P ?R"
    by (simp_all add: point_neq_def point_eq_def sub_def norm_point_x_axis epsilon_def)
  then show "\<exists>P Q R. point_eq P Q \<and> point_eq Q R \<and> point_neq P R"
    by blast
qed

section \<open>Construction\<close>

text \<open>
  Claim C4. Constructing a line from two points whose distance is below \<open>epsilon\<close> fails
  the assertion, which is the abort of the program and not a value handed back to the
  caller; constructing it from two points at distance at least \<open>epsilon\<close> succeeds and
  stores the two points as given. No query has a failure of its own: \<open>sine\<close>,
  \<open>x_intercept\<close> and \<open>y_intercept\<close> never end in an error on any line, and \<open>crosses\<close> and
  the line equality are plain truth values.
\<close>

theorem line_construction:
  "(norm_point (sub Q P) < epsilon \<longrightarrow> mk_line P Q = Inl AssertionFailed) \<and>
   (epsilon \<le> norm_point (sub Q P) \<longrightarrow> mk_line P Q = Inr \<lparr>A = P, B = Q\<rparr>) \<and>
   (\<forall>e. sine l \<noteq> Inl e \<and> x_intercept l \<noteq> Inl e \<and> y_intercept l \<noteq> Inl e)"
  by (simp add: mk_line_def point_neq_def point_eq_def sine_total x_intercept_total
      y_intercept_total)

text \<open>
  The first instance is scenario S6 of the specification, the points \<open>(3, 4)\<close> and
  \<open>(3, 4 + 1e-12)\<close>; the second is the line through \<open>(3, 4)\<close> and \<open>(3, 5)\<close>.
\<close>

theorem line_construction_witness:
  "norm_point (sub \<lparr>x = 3, y = 4 + 1 / 10 ^ 12\<rparr> \<lparr>x = 3, y = 4\<rparr>) < epsilon \<and>
   mk_line \<lparr>x = 3, y = 4\<rparr> \<lparr>x = 3, y = 4 + 1 / 10 ^ 12\<rparr> = Inl AssertionFailed \<and>
   epsilon \<le> norm_point (sub \<lparr>x = 3, y = 5\<rparr> \<lparr>x = 3, y = 4\<rparr>) \<and>
   mk_line \<lparr>x = 3, y = 4\<rparr> \<lparr>x = 3, y = 5\<rparr> = Inr \<lparr>A = \<lparr>x = 3, y = 4\<rparr>, B = \<lparr>x = 3, y = 5\<rparr>\<rparr>"
proof -
  have near: "norm_point (sub \<lparr>x = 3, y = 4 + 1 / 10 ^ 12\<rparr> \<lparr>x = 3, y = 4\<rparr>) < epsilon"
    by (simp add: sub_def norm_point_y_axis epsilon_def)
  have far: "epsilon \<le> norm_point (sub \<lparr>x = 3, y = 5\<rparr> \<lparr>x = 3, y = 4\<rparr>)"
    by (simp add: sub_def norm_point_y_axis epsilon_def)
  show ?thesis
    using near far
      line_construction [of "\<lparr>x = 3, y = 4 + 1 / 10 ^ 12\<rparr>" "\<lparr>x = 3, y = 4\<rparr>"]
      line_construction [of "\<lparr>x = 3, y = 5\<rparr>" "\<lparr>x = 3, y = 4\<rparr>"]
    by blast
qed

section \<open>Incidence\<close>

text \<open>
  Claim C1. For a line constructed from \<open>P\<close> and \<open>Q\<close> and any point \<open>C\<close>,
  \<open>crosses C\<close> is true if and only if \<open>C\<close> is approximately equal to \<open>P\<close> or to \<open>Q\<close>,
  or \<open>| |d| - ab * bc | < epsilon * ab * bc\<close> for \<open>d = (Q - P) . (C - Q)\<close>,
  \<open>ab = norm (Q - P)\<close> and \<open>bc = norm (C - Q)\<close>. The equality test comes first, so a
  point within \<open>epsilon\<close> of \<open>P\<close> or \<open>Q\<close> is accepted whatever the scaled test says.
\<close>

theorem crosses_iff:
  assumes "mk_line P Q = Inr l"
  shows "crosses l C =
           (point_eq C P \<or> point_eq C Q \<or>
            \<bar>\<bar>dot (sub Q P) (sub C Q)\<bar> - norm_point (sub Q P) * norm_point (sub C Q)\<bar>
              < epsilon * norm_point (sub Q P) * norm_point (sub C Q))
         \<and> (point_eq C P \<or> point_eq C Q \<longrightarrow> crosses l C)"
proof -
  have l: "l = \<lparr>A = P, B = Q\<rparr>"
    using mk_line_Inr [OF assms] by simp
  show ?thesis
    unfolding l crosses_def Let_def
    by (simp add: point_eq_sym [of C])
qed

theorem crosses_iff_witness:
  "mk_line \<lparr>x = 0, y = 5\<rparr> \<lparr>x = 3, y = 5\<rparr> = Inr \<lparr>A = \<lparr>x = 0, y = 5\<rparr>, B = \<lparr>x = 3, y = 5\<rparr>\<rparr> \<and>
   point_eq \<lparr>x = 3, y = 5\<rparr> \<lparr>x = 3, y = 5\<rparr> \<and>
   crosses \<lparr>A = \<lparr>x = 0, y = 5\<rparr>, B = \<lparr>x = 3, y = 5\<rparr>\<rparr> \<lparr>x = 3, y = 5\<rparr>"
proof -
  have mk: "mk_line \<lparr>x = 0, y = 5\<rparr> \<lparr>x = 3, y = 5\<rparr> = Inr \<lparr>A = \<lparr>x = 0, y = 5\<rparr>, B = \<lparr>x = 3, y = 5\<rparr>\<rparr>"
    by (rule mk_line_horizontal) (simp add: epsilon_def)
  have eq: "point_eq \<lparr>x = 3, y = 5\<rparr> \<lparr>x = 3, y = 5\<rparr>"
    by (rule point_eq_refl)
  show ?thesis
    using mk eq crosses_iff [OF mk, of "\<lparr>x = 3, y = 5\<rparr>"] by blast
qed

section \<open>Orientation\<close>

subsection \<open>The range of \<open>sine\<close> over \<^typ>\<open>double\<close>\<close>

lemma overflow_threshold_gt: "2 ^ 1023 < overflow_threshold"
  by (simp add: overflow_threshold_def)

lemma overflow_threshold_pos: "1 < overflow_threshold"
proof -
  have "(1::real) \<le> 2 ^ 1023"
    by simp
  with overflow_threshold_gt show ?thesis
    by linarith
qed

lemma of_exact_Fin: "\<bar>r\<bar> < overflow_threshold \<Longrightarrow> of_exact r = Fin r"
  by (auto simp add: of_exact_def)


lemma of_exact_minus_Fin: "of_exact r = Fin r \<Longrightarrow> of_exact (- r) = Fin (- r)"
  using overflow_threshold_pos by (auto simp add: of_exact_def split: if_splits)
















text \<open>
  On coordinates of magnitude at most \<open>2 ^ 500\<close> nothing overflows, and the two readings of
  point equality, of the constructor and of \<open>sine\<close> agree.
\<close>

lemma square_bound:
  fixes e :: real
  assumes "\<bar>e\<bar> \<le> 2 ^ 501"
  shows "e * e \<le> 2 ^ 1002"
proof -
  have "\<bar>e\<bar> * \<bar>e\<bar> \<le> 2 ^ 501 * 2 ^ 501"
    using assms by (intro mult_mono) simp_all
  then show ?thesis
    by (simp add: power_add [symmetric])
qed

lemma norm_d_in_range:
  fixes a b c d :: real
  assumes "\<bar>a\<bar> \<le> 2 ^ 500" "\<bar>b\<bar> \<le> 2 ^ 500" "\<bar>c\<bar> \<le> 2 ^ 500" "\<bar>d\<bar> \<le> 2 ^ 500"
  shows "norm_d (sub_d \<lparr>x_d = Fin c, y_d = Fin d\<rparr> \<lparr>x_d = Fin a, y_d = Fin b\<rparr>)
           = Fin (sqrt ((c - a) * (c - a) + (d - b) * (d - b)))"
    and "of_exact (d - b) = Fin (d - b)" and "of_exact (a - c) = Fin (a - c)"
proof -
  have big: "(2::real) ^ 1004 < overflow_threshold"
    by (simp add: overflow_threshold_def)
  have e: "\<bar>c - a\<bar> \<le> 2 ^ 501" and n: "\<bar>d - b\<bar> \<le> 2 ^ 501" and e': "\<bar>a - c\<bar> \<le> 2 ^ 501"
    using assms by simp_all
  have small: "(2::real) ^ 501 < 2 ^ 1004" "(2::real) ^ 1002 < 2 ^ 1004" "(2::real) ^ 1002 + 2 ^ 1002 < 2 ^ 1004"
    by simp_all
  have ee: "(c - a) * (c - a) \<le> 2 ^ 1002" and nn: "(d - b) * (d - b) \<le> 2 ^ 1002"
    by (rule square_bound [OF e], rule square_bound [OF n])
  have "0 \<le> (c - a) * (c - a)" "0 \<le> (d - b) * (d - b)"
    by simp_all
  then have f: "of_exact (c - a) = Fin (c - a)" "of_exact (d - b) = Fin (d - b)"
       "of_exact (a - c) = Fin (a - c)"
       "of_exact ((c - a) * (c - a)) = Fin ((c - a) * (c - a))"
       "of_exact ((d - b) * (d - b)) = Fin ((d - b) * (d - b))"
       "of_exact ((c - a) * (c - a) + (d - b) * (d - b)) = Fin ((c - a) * (c - a) + (d - b) * (d - b))"
    using e n e' ee nn big small by (intro of_exact_Fin; linarith)+
  show "of_exact (d - b) = Fin (d - b)" "of_exact (a - c) = Fin (a - c)"
    by (rule f)+
  have "\<not> (c - a) * (c - a) + (d - b) * (d - b) < 0"
    by (simp add: not_less)
  then show "norm_d (sub_d \<lparr>x_d = Fin c, y_d = Fin d\<rparr> \<lparr>x_d = Fin a, y_d = Fin b\<rparr>)
           = Fin (sqrt ((c - a) * (c - a) + (d - b) * (d - b)))"
    by (simp add: norm_d_def dot_d_def sub_d_def f)
qed

lemma point_eq_d_agrees:
  assumes "\<bar>x P\<bar> \<le> 2 ^ 500" "\<bar>y P\<bar> \<le> 2 ^ 500" "\<bar>x Q\<bar> \<le> 2 ^ 500" "\<bar>y Q\<bar> \<le> 2 ^ 500"
  shows "point_eq_d (lift_point P) (lift_point Q) = point_eq P Q"
  using norm_d_in_range(1) [OF assms]
  by (simp add: point_eq_d_def point_eq_def lift_point_def norm_point_def dot_def sub_def)

lemma mk_line_d_agrees:
  assumes "\<bar>x P\<bar> \<le> 2 ^ 500" "\<bar>y P\<bar> \<le> 2 ^ 500" "\<bar>x Q\<bar> \<le> 2 ^ 500" "\<bar>y Q\<bar> \<le> 2 ^ 500"
  shows "mk_line_d (lift_point P) (lift_point Q) = map_sum id lift_line (mk_line P Q)"
  using point_eq_d_agrees [OF assms]
  by (simp add: mk_line_d_def mk_line_def point_neq_d_def point_neq_def lift_line_def)

lemma sine_d_agrees:
  assumes "\<bar>x (A l)\<bar> \<le> 2 ^ 500" "\<bar>y (A l)\<bar> \<le> 2 ^ 500" "\<bar>x (B l)\<bar> \<le> 2 ^ 500" "\<bar>y (B l)\<bar> \<le> 2 ^ 500"
  shows "sine_d (lift_line l) = map_sum id Fin (sine l)"
proof (cases "\<bar>x (A l) - x (B l)\<bar> < epsilon")
  case True
  then show ?thesis
    using norm_d_in_range(3) [OF assms]
    by (simp add: sine_d_def sine_def lift_line_def lift_point_def)
next
  case False
  define s where "s = norm_point (sub (B l) (A l))"
  define n where "n = y (B l) - y (A l)"
  have nm: "norm_d (sub_d (lift_point (B l)) (lift_point (A l))) = Fin s"
    using norm_d_in_range(1) [OF assms]
    by (simp add: s_def lift_point_def norm_point_def dot_def sub_def)
  have num1: "dsub (y_d (lift_point (B l))) (y_d (lift_point (A l))) = Fin n"
    using norm_d_in_range(2) [OF assms] by (simp add: n_def lift_point_def)
  have num2: "dsub (y_d (lift_point (A l))) (y_d (lift_point (B l))) = Fin (- n)"
    using norm_d_in_range(2) [OF assms] of_exact_minus_Fin [of "y (B l) - y (A l)"]
    by (simp add: n_def lift_point_def)
  have guard: "\<not> dless (dabs (dsub (x_d (lift_point (A l))) (x_d (lift_point (B l))))) (Fin epsilon)"
    using norm_d_in_range(3) [OF assms] False by (simp add: lift_point_def)
  have ord: "dless (x_d (lift_point (A l))) (x_d (lift_point (B l))) = (x (A l) < x (B l))"
    by (simp add: lift_point_def)
  have "epsilon \<le> s"
    unfolding s_def using False by (rule sine_divisor)
  then have spos: "0 < s"
    using epsilon_pos by linarith
  have "\<bar>n\<bar> \<le> s"
    unfolding n_def s_def using norm_point_ge_y_gap [of "A l" "B l"] by (simp add: abs_minus_commute)
  with spos have "\<bar>n / s\<bar> \<le> 1"
    by simp
  then have "\<bar>n / s\<bar> < overflow_threshold" "\<bar>- n / s\<bar> < overflow_threshold"
    using overflow_threshold_pos by auto
  then have "of_exact (n / s) = Fin (n / s)" "of_exact (- n / s) = Fin (- (n / s))"
    using of_exact_Fin [of "n / s"] of_exact_Fin [of "- n / s"] by simp_all
  then have quot: "ddiv (Fin n) (Fin s) = Inr (Fin (n / s))"
                  "ddiv (Fin (- n)) (Fin s) = Inr (Fin (- (n / s)))"
    using spos by simp_all
  have r: "(y (A l) - y (B l)) / s = - (n / s)"
    unfolding n_def by (simp only: minus_divide_left minus_diff_eq)
  have exact: "sine l = Inr (if x (A l) < x (B l) then n / s else - (n / s))"
    using False by (simp add: sine_total s_def [symmetric] r) (simp add: n_def)
  have "sine_d (lift_line l) = Inr (Fin (if x (A l) < x (B l) then n / s else - (n / s)))"
    by (simp add: sine_d_def lift_line_def guard ord num1 num2 nm quot del: ddiv.simps)
  with exact show ?thesis
    by simp
qed

text \<open>
  Claim C6. For two points \<open>P\<close> and \<open>Q\<close> with \<open>|P.x - Q.x| \<ge> epsilon\<close>, the line
  constructed from \<open>(P, Q)\<close> and the line constructed from \<open>(Q, P)\<close> return the same
  value from \<open>sine\<close>.
\<close>

theorem sine_swap:
  assumes "\<not> \<bar>x P - x Q\<bar> < epsilon"
    and "mk_line P Q = Inr l" and "mk_line Q P = Inr l'"
  shows "sine l = sine l'"
proof -
  have l: "A l = P" "B l = Q" "A l' = Q" "B l' = P"
    using mk_line_Inr [OF assms(2)] mk_line_Inr [OF assms(3)] by simp_all
  from assms(1) have nv': "\<not> \<bar>x Q - x P\<bar> < epsilon"
    by (simp add: abs_minus_commute)
  from assms(1) epsilon_pos have ne: "x P \<noteq> x Q"
    by auto
  show ?thesis
    using assms(1) nv' ne
    by (auto simp add: sine_total l norm_point_sub_swap [of P Q])
qed

theorem sine_swap_witness:
  "\<not> \<bar>x \<lparr>x = 0, y = 5\<rparr> - x \<lparr>x = 3, y = 6\<rparr>\<bar> < epsilon \<and>
   mk_line \<lparr>x = 0, y = 5\<rparr> \<lparr>x = 3, y = 6\<rparr> = Inr \<lparr>A = \<lparr>x = 0, y = 5\<rparr>, B = \<lparr>x = 3, y = 6\<rparr>\<rparr> \<and>
   mk_line \<lparr>x = 3, y = 6\<rparr> \<lparr>x = 0, y = 5\<rparr> = Inr \<lparr>A = \<lparr>x = 3, y = 6\<rparr>, B = \<lparr>x = 0, y = 5\<rparr>\<rparr> \<and>
   sine \<lparr>A = \<lparr>x = 0, y = 5\<rparr>, B = \<lparr>x = 3, y = 6\<rparr>\<rparr> = sine \<lparr>A = \<lparr>x = 3, y = 6\<rparr>, B = \<lparr>x = 0, y = 5\<rparr>\<rparr>"
proof -
  have nv: "\<not> \<bar>x \<lparr>x = 0, y = 5\<rparr> - x \<lparr>x = 3, y = 6\<rparr>\<bar> < epsilon"
    by (simp add: epsilon_def)
  have far: "epsilon \<le> norm_point (sub \<lparr>x = 3, y = 6\<rparr> \<lparr>x = 0, y = 5\<rparr>)"
    using norm_point_ge_x_gap [of "\<lparr>x = 0, y = 5\<rparr>" "\<lparr>x = 3, y = 6\<rparr>"] by (simp add: epsilon_def)
  have mk1: "mk_line \<lparr>x = 0, y = 5\<rparr> \<lparr>x = 3, y = 6\<rparr> = Inr \<lparr>A = \<lparr>x = 0, y = 5\<rparr>, B = \<lparr>x = 3, y = 6\<rparr>\<rparr>"
    using far by (rule mk_line_ok)
  have mk2: "mk_line \<lparr>x = 3, y = 6\<rparr> \<lparr>x = 0, y = 5\<rparr> = Inr \<lparr>A = \<lparr>x = 3, y = 6\<rparr>, B = \<lparr>x = 0, y = 5\<rparr>\<rparr>"
    using far by (intro mk_line_ok) (simp add: norm_point_sub_swap [of "\<lparr>x = 0, y = 5\<rparr>"])
  show ?thesis
    using nv mk1 mk2 sine_swap [OF nv mk1 mk2] by blast
qed

section \<open>Scenario S1: the horizontal line through \<open>(0, 5)\<close> and \<open>(3, 5)\<close>\<close>

lemma s1_sine: "sine \<lparr>A = \<lparr>x = 0, y = 5\<rparr>, B = \<lparr>x = 3, y = 5\<rparr>\<rparr> = Inr 0"
  by (simp add: sine_total epsilon_def)

lemma s1_x_intercept: "x_intercept \<lparr>A = \<lparr>x = 0, y = 5\<rparr>, B = \<lparr>x = 3, y = 5\<rparr>\<rparr> = Inr dbl_max"
  by (simp add: x_intercept_total epsilon_def)

lemma s1_y_intercept: "y_intercept \<lparr>A = \<lparr>x = 0, y = 5\<rparr>, B = \<lparr>x = 3, y = 5\<rparr>\<rparr> = Inr 5"
  by (simp add: y_intercept_total epsilon_def)

lemma s1_crosses_on: "crosses \<lparr>A = \<lparr>x = 0, y = 5\<rparr>, B = \<lparr>x = 3, y = 5\<rparr>\<rparr> \<lparr>x = - 7, y = 5\<rparr>"
  by (simp add: crosses_unfold sub_def norm_point_x_axis dot_def epsilon_def)

lemma s1_crosses_near:
  "crosses \<lparr>A = \<lparr>x = 0, y = 5\<rparr>, B = \<lparr>x = 3, y = 5\<rparr>\<rparr> \<lparr>x = - 7, y = 50000001 / 10000000\<rparr>"
proof -
  let ?C = "\<lparr>x = - 7, y = 50000001 / 10000000\<rparr>"
  let ?P = "\<lparr>x = 0, y = 5\<rparr>"
  let ?Q = "\<lparr>x = 3, y = 5\<rparr>"
  define bc where "bc = norm_point (sub ?C ?Q)"
  have ab: "norm_point (sub ?Q ?P) = 3"
    by (simp add: sub_def norm_point_x_axis)
  have d: "dot (sub ?Q ?P) (sub ?C ?Q) = - 30"
    by (simp add: sub_def dot_def)
  have "10 \<le> norm_point (sub ?C ?Q) \<and> norm_point (sub ?C ?Q) \<le> 10 + 1 / 10 ^ 10"
    by (rule norm_point_bounds) (simp_all add: sub_def dot_def power2_eq_square)
  then have bc: "10 \<le> bc" "bc \<le> 10 + 1 / 10 ^ 10"
    by (simp_all add: bc_def)
  then have "\<bar>\<bar>- 30 :: real\<bar> - 3 * bc\<bar> < epsilon * 3 * bc"
    by (simp add: epsilon_def)
  then show ?thesis
    unfolding crosses_unfold ab d bc_def by blast
qed

text \<open>
  Claim C3, as stated: on the line constructed from \<open>(0, 5)\<close> and \<open>(3, 5)\<close>,
  \<open>crosses((-7, 5.0000001))\<close> returns false. It returns true: with \<open>B - A = (3, 0)\<close> and
  \<open>C - B = (-10, 1e-7)\<close> the dot product is \<open>-30\<close>, \<open>ab = 3\<close> and
  \<open>bc = sqrt (100 + 1e-14)\<close> lies between \<open>10\<close> and \<open>10 + 1e-10\<close>, so
  \<open>| |d| - ab * bc |\<close> is at most \<open>3e-10\<close>, below \<open>epsilon * ab * bc\<close>, which is at least
  \<open>3e-9\<close>. The test bounds \<open>1 - |cos t|\<close>, which is quadratic in the angle \<open>t\<close>.
\<close>

theorem s1_near_point_counterexample:
  "mk_line \<lparr>x = 0, y = 5\<rparr> \<lparr>x = 3, y = 5\<rparr> = Inr \<lparr>A = \<lparr>x = 0, y = 5\<rparr>, B = \<lparr>x = 3, y = 5\<rparr>\<rparr> \<and>
   crosses \<lparr>A = \<lparr>x = 0, y = 5\<rparr>, B = \<lparr>x = 3, y = 5\<rparr>\<rparr> \<lparr>x = - 7, y = 50000001 / 10000000\<rparr> \<noteq> False"
proof -
  have "mk_line \<lparr>x = 0, y = 5\<rparr> \<lparr>x = 3, y = 5\<rparr> = Inr \<lparr>A = \<lparr>x = 0, y = 5\<rparr>, B = \<lparr>x = 3, y = 5\<rparr>\<rparr>"
    by (rule mk_line_horizontal) (simp add: epsilon_def)
  then show ?thesis
    using s1_crosses_near by simp
qed

text \<open>
  Claim C3, amended: on the line constructed from \<open>(0, 5)\<close> and \<open>(3, 5)\<close>, \<open>sine\<close>
  returns \<open>0\<close>, \<open>x_intercept\<close> returns the largest finite double, \<open>y_intercept\<close> returns
  \<open>5\<close>, \<open>crosses((-7, 5))\<close> returns true, and \<open>crosses((-7, 5.0000001))\<close> returns true
  as well.
\<close>

theorem scenario_s1:
  "mk_line \<lparr>x = 0, y = 5\<rparr> \<lparr>x = 3, y = 5\<rparr> = Inr \<lparr>A = \<lparr>x = 0, y = 5\<rparr>, B = \<lparr>x = 3, y = 5\<rparr>\<rparr> \<and>
   sine \<lparr>A = \<lparr>x = 0, y = 5\<rparr>, B = \<lparr>x = 3, y = 5\<rparr>\<rparr> = Inr 0 \<and>
   x_intercept \<lparr>A = \<lparr>x = 0, y = 5\<rparr>, B = \<lparr>x = 3, y = 5\<rparr>\<rparr> = Inr dbl_max \<and>
   y_intercept \<lparr>A = \<lparr>x = 0, y = 5\<rparr>, B = \<lparr>x = 3, y = 5\<rparr>\<rparr> = Inr 5 \<and>
   crosses \<lparr>A = \<lparr>x = 0, y = 5\<rparr>, B = \<lparr>x = 3, y = 5\<rparr>\<rparr> \<lparr>x = - 7, y = 5\<rparr> \<and>
   crosses \<lparr>A = \<lparr>x = 0, y = 5\<rparr>, B = \<lparr>x = 3, y = 5\<rparr>\<rparr> \<lparr>x = - 7, y = 50000001 / 10000000\<rparr>"
proof -
  have "mk_line \<lparr>x = 0, y = 5\<rparr> \<lparr>x = 3, y = 5\<rparr> = Inr \<lparr>A = \<lparr>x = 0, y = 5\<rparr>, B = \<lparr>x = 3, y = 5\<rparr>\<rparr>"
    by (rule mk_line_horizontal) (simp add: epsilon_def)
  then show ?thesis
    using s1_sine s1_x_intercept s1_y_intercept s1_crosses_on s1_crosses_near by simp
qed

section \<open>Intercepts\<close>

text \<open>
  Claim C7, as stated: \<open>x_intercept\<close> returns the largest finite double exactly when
  \<open>|A.y - B.y| < epsilon\<close>. The vertical line through \<open>(max, 0)\<close> and \<open>(max, 1)\<close>, where
  \<open>max\<close> is the largest finite double, is constructed without error, is not horizontal
  (\<open>|0 - 1| \<ge> epsilon\<close>), and its \<open>x_intercept\<close> is \<open>max - (0 / 1) * 0 = max\<close>.
\<close>

theorem x_intercept_sentinel_counterexample:
  "mk_line \<lparr>x = dbl_max, y = 0\<rparr> \<lparr>x = dbl_max, y = 1\<rparr>
     = Inr \<lparr>A = \<lparr>x = dbl_max, y = 0\<rparr>, B = \<lparr>x = dbl_max, y = 1\<rparr>\<rparr> \<and>
   x_intercept \<lparr>A = \<lparr>x = dbl_max, y = 0\<rparr>, B = \<lparr>x = dbl_max, y = 1\<rparr>\<rparr> = Inr dbl_max \<and>
   \<not> \<bar>y \<lparr>x = dbl_max, y = 0\<rparr> - y \<lparr>x = dbl_max, y = 1\<rparr>\<bar> < epsilon"
proof -
  have "mk_line \<lparr>x = dbl_max, y = 0\<rparr> \<lparr>x = dbl_max, y = 1\<rparr>
     = Inr \<lparr>A = \<lparr>x = dbl_max, y = 0\<rparr>, B = \<lparr>x = dbl_max, y = 1\<rparr>\<rparr>"
    by (rule mk_line_vertical) (simp add: epsilon_def)
  moreover have "x_intercept \<lparr>A = \<lparr>x = dbl_max, y = 0\<rparr>, B = \<lparr>x = dbl_max, y = 1\<rparr>\<rparr> = Inr dbl_max"
    by (simp add: x_intercept_total epsilon_def)
  moreover have "\<not> \<bar>y \<lparr>x = dbl_max, y = 0\<rparr> - y \<lparr>x = dbl_max, y = 1\<rparr>\<bar> < epsilon"
    by (simp add: epsilon_def)
  ultimately show ?thesis by blast
qed

text \<open>
  Claim C7, amended: for a constructed line, \<open>x_intercept\<close> returns the largest finite
  double whenever \<open>|A.y - B.y| < epsilon\<close>, and otherwise returns \<open>A.x - m' * A.y\<close> with
  \<open>m' = (B.x - A.x) / (B.y - A.y)\<close> (a value that can itself be the largest finite
  double).
\<close>

theorem x_intercept_cases:
  assumes "mk_line P Q = Inr l"
  shows "(\<bar>y P - y Q\<bar> < epsilon \<longrightarrow> x_intercept l = Inr dbl_max) \<and>
         (\<not> \<bar>y P - y Q\<bar> < epsilon \<longrightarrow>
            x_intercept l = Inr (x P - (x Q - x P) / (y Q - y P) * y P))"
proof -
  have l: "A l = P" "B l = Q"
    using mk_line_Inr [OF assms] by simp_all
  show ?thesis
    by (simp add: x_intercept_total l)
qed

theorem x_intercept_cases_witness:
  "mk_line \<lparr>x = 0, y = 5\<rparr> \<lparr>x = 3, y = 5\<rparr> = Inr \<lparr>A = \<lparr>x = 0, y = 5\<rparr>, B = \<lparr>x = 3, y = 5\<rparr>\<rparr> \<and>
   \<bar>y \<lparr>x = 0, y = 5\<rparr> - y \<lparr>x = 3, y = 5\<rparr>\<bar> < epsilon \<and>
   x_intercept \<lparr>A = \<lparr>x = 0, y = 5\<rparr>, B = \<lparr>x = 3, y = 5\<rparr>\<rparr> = Inr dbl_max \<and>
   mk_line \<lparr>x = 2, y = 0\<rparr> \<lparr>x = 2, y = 9\<rparr> = Inr \<lparr>A = \<lparr>x = 2, y = 0\<rparr>, B = \<lparr>x = 2, y = 9\<rparr>\<rparr> \<and>
   \<not> \<bar>y \<lparr>x = 2, y = 0\<rparr> - y \<lparr>x = 2, y = 9\<rparr>\<bar> < epsilon \<and>
   x_intercept \<lparr>A = \<lparr>x = 2, y = 0\<rparr>, B = \<lparr>x = 2, y = 9\<rparr>\<rparr> = Inr 2"
proof -
  have mk1: "mk_line \<lparr>x = 0, y = 5\<rparr> \<lparr>x = 3, y = 5\<rparr> = Inr \<lparr>A = \<lparr>x = 0, y = 5\<rparr>, B = \<lparr>x = 3, y = 5\<rparr>\<rparr>"
    by (rule mk_line_horizontal) (simp add: epsilon_def)
  have h: "\<bar>y \<lparr>x = 0, y = 5\<rparr> - y \<lparr>x = 3, y = 5\<rparr>\<bar> < epsilon"
    by (simp add: epsilon_def)
  have mk2: "mk_line \<lparr>x = 2, y = 0\<rparr> \<lparr>x = 2, y = 9\<rparr> = Inr \<lparr>A = \<lparr>x = 2, y = 0\<rparr>, B = \<lparr>x = 2, y = 9\<rparr>\<rparr>"
    by (rule mk_line_vertical) (simp add: epsilon_def)
  have nh: "\<not> \<bar>y \<lparr>x = 2, y = 0\<rparr> - y \<lparr>x = 2, y = 9\<rparr>\<bar> < epsilon"
    by (simp add: epsilon_def)
  show ?thesis
    using mk1 h mk2 nh x_intercept_cases [OF mk1] x_intercept_cases [OF mk2] by simp
qed

section \<open>Divisions\<close>

text \<open>
  Claim C9. On every pair of stored points, constructed through the assertion or not:
  \<^item> when \<open>|A.x - B.x| < epsilon\<close>, \<open>sine\<close> and \<open>y_intercept\<close> return their constant and
    divide nothing; otherwise \<open>sine\<close> is the one division by \<open>norm (B - A)\<close>, and that
    divisor is at least \<open>epsilon\<close>, and \<open>y_intercept\<close> is computed from the one division
    by \<open>B.x - A.x\<close>, and that divisor has absolute value at least \<open>epsilon\<close>;
  \<^item> when \<open>|A.y - B.y| < epsilon\<close>, \<open>x_intercept\<close> returns its constant and divides
    nothing; otherwise it is computed from the one division by \<open>B.y - A.y\<close>, and that
    divisor has absolute value at least \<open>epsilon\<close>;
  \<^item> a division by a divisor of absolute value at least \<open>epsilon\<close> is not a division by
    zero, so every query returns a value.
\<close>

theorem divisors_at_least_epsilon:
  "(\<bar>x (A l) - x (B l)\<bar> < epsilon \<longrightarrow>
      sine l = Inr 1 \<and> y_intercept l = Inr dbl_max) \<and>
   (\<not> \<bar>x (A l) - x (B l)\<bar> < epsilon \<longrightarrow>
      sine l = fdiv (if x (B l) > x (A l) then y (B l) - y (A l) else y (A l) - y (B l))
                    (norm_point (sub (B l) (A l))) \<and>
      epsilon \<le> norm_point (sub (B l) (A l)) \<and>
      y_intercept l = map_sum id (\<lambda>m. y (A l) - m * x (A l))
                        (fdiv (y (B l) - y (A l)) (x (B l) - x (A l))) \<and>
      epsilon \<le> \<bar>x (B l) - x (A l)\<bar>) \<and>
   (\<bar>y (A l) - y (B l)\<bar> < epsilon \<longrightarrow> x_intercept l = Inr dbl_max) \<and>
   (\<not> \<bar>y (A l) - y (B l)\<bar> < epsilon \<longrightarrow>
      x_intercept l = map_sum id (\<lambda>m. x (A l) - m * y (A l))
                        (fdiv (x (B l) - x (A l)) (y (B l) - y (A l))) \<and>
      epsilon \<le> \<bar>y (B l) - y (A l)\<bar>) \<and>
   (\<forall>n d. epsilon \<le> \<bar>d\<bar> \<longrightarrow> fdiv n d = Inr (n / d)) \<and>
   (\<exists>v. sine l = Inr v) \<and> (\<exists>v. x_intercept l = Inr v) \<and> (\<exists>v. y_intercept l = Inr v)"
proof (intro conjI impI allI)
  fix n d :: real
  assume "epsilon \<le> \<bar>d\<bar>"
  then have "d \<noteq> 0"
    using epsilon_pos by auto
  then show "fdiv n d = Inr (n / d)"
    by (simp add: fdiv_def)
next
  assume v: "\<bar>x (A l) - x (B l)\<bar> < epsilon"
  then show "sine l = Inr 1" "y_intercept l = Inr dbl_max"
    by (simp_all add: sine_def y_intercept_def)
next
  assume nv: "\<not> \<bar>x (A l) - x (B l)\<bar> < epsilon"
  show "epsilon \<le> norm_point (sub (B l) (A l))"
    using nv by (rule sine_divisor)
  show "sine l = fdiv (if x (B l) > x (A l) then y (B l) - y (A l) else y (A l) - y (B l))
                    (norm_point (sub (B l) (A l)))"
    using nv by (simp add: sine_def)
  show "epsilon \<le> \<bar>x (B l) - x (A l)\<bar>"
    using nv by (simp add: abs_minus_commute)
  show "y_intercept l = map_sum id (\<lambda>m. y (A l) - m * x (A l))
                        (fdiv (y (B l) - y (A l)) (x (B l) - x (A l)))"
    using nv by (simp add: y_intercept_def split: sum.split)
next
  assume h: "\<bar>y (A l) - y (B l)\<bar> < epsilon"
  then show "x_intercept l = Inr dbl_max"
    by (simp add: x_intercept_def)
next
  assume nh: "\<not> \<bar>y (A l) - y (B l)\<bar> < epsilon"
  show "epsilon \<le> \<bar>y (B l) - y (A l)\<bar>"
    using nh by (simp add: abs_minus_commute)
  show "x_intercept l = map_sum id (\<lambda>m. x (A l) - m * y (A l))
                        (fdiv (x (B l) - x (A l)) (y (B l) - y (A l)))"
    using nh by (simp add: x_intercept_def split: sum.split)
next
  show "\<exists>v. sine l = Inr v" by (simp add: sine_total)
  show "\<exists>v. x_intercept l = Inr v" by (simp add: x_intercept_total)
  show "\<exists>v. y_intercept l = Inr v" by (simp add: y_intercept_total)
qed

text \<open>
  The first line, through \<open>(0, 5)\<close> and \<open>(3, 6)\<close>, takes the dividing branch of all three
  queries. The second pair, \<open>(1, 1)\<close> twice, would fail the assertion of the constructor;
  the queries still divide nothing on it.
\<close>

theorem divisors_at_least_epsilon_witness:
  "\<not> \<bar>x (A \<lparr>A = \<lparr>x = 0, y = 5\<rparr>, B = \<lparr>x = 3, y = 6\<rparr>\<rparr>) - x (B \<lparr>A = \<lparr>x = 0, y = 5\<rparr>, B = \<lparr>x = 3, y = 6\<rparr>\<rparr>)\<bar> < epsilon \<and>
   \<not> \<bar>y (A \<lparr>A = \<lparr>x = 0, y = 5\<rparr>, B = \<lparr>x = 3, y = 6\<rparr>\<rparr>) - y (B \<lparr>A = \<lparr>x = 0, y = 5\<rparr>, B = \<lparr>x = 3, y = 6\<rparr>\<rparr>)\<bar> < epsilon \<and>
   epsilon \<le> norm_point (sub (B \<lparr>A = \<lparr>x = 0, y = 5\<rparr>, B = \<lparr>x = 3, y = 6\<rparr>\<rparr>) (A \<lparr>A = \<lparr>x = 0, y = 5\<rparr>, B = \<lparr>x = 3, y = 6\<rparr>\<rparr>)) \<and>
   epsilon \<le> \<bar>x (B \<lparr>A = \<lparr>x = 0, y = 5\<rparr>, B = \<lparr>x = 3, y = 6\<rparr>\<rparr>) - x (A \<lparr>A = \<lparr>x = 0, y = 5\<rparr>, B = \<lparr>x = 3, y = 6\<rparr>\<rparr>)\<bar> \<and>
   epsilon \<le> \<bar>y (B \<lparr>A = \<lparr>x = 0, y = 5\<rparr>, B = \<lparr>x = 3, y = 6\<rparr>\<rparr>) - y (A \<lparr>A = \<lparr>x = 0, y = 5\<rparr>, B = \<lparr>x = 3, y = 6\<rparr>\<rparr>)\<bar> \<and>
   x_intercept \<lparr>A = \<lparr>x = 0, y = 5\<rparr>, B = \<lparr>x = 3, y = 6\<rparr>\<rparr> = Inr (- 15) \<and>
   y_intercept \<lparr>A = \<lparr>x = 0, y = 5\<rparr>, B = \<lparr>x = 3, y = 6\<rparr>\<rparr> = Inr 5 \<and>
   \<bar>x (A \<lparr>A = \<lparr>x = 1, y = 1\<rparr>, B = \<lparr>x = 1, y = 1\<rparr>\<rparr>) - x (B \<lparr>A = \<lparr>x = 1, y = 1\<rparr>, B = \<lparr>x = 1, y = 1\<rparr>\<rparr>)\<bar> < epsilon \<and>
   \<bar>y (A \<lparr>A = \<lparr>x = 1, y = 1\<rparr>, B = \<lparr>x = 1, y = 1\<rparr>\<rparr>) - y (B \<lparr>A = \<lparr>x = 1, y = 1\<rparr>, B = \<lparr>x = 1, y = 1\<rparr>\<rparr>)\<bar> < epsilon \<and>
   sine \<lparr>A = \<lparr>x = 1, y = 1\<rparr>, B = \<lparr>x = 1, y = 1\<rparr>\<rparr> = Inr 1 \<and> x_intercept \<lparr>A = \<lparr>x = 1, y = 1\<rparr>, B = \<lparr>x = 1, y = 1\<rparr>\<rparr> = Inr dbl_max \<and> y_intercept \<lparr>A = \<lparr>x = 1, y = 1\<rparr>, B = \<lparr>x = 1, y = 1\<rparr>\<rparr> = Inr dbl_max \<and>
   epsilon \<le> \<bar>2 :: real\<bar> \<and> fdiv 1 2 = Inr (1 / 2)"
proof -
  have nv: "\<not> \<bar>x (A \<lparr>A = \<lparr>x = 0, y = 5\<rparr>, B = \<lparr>x = 3, y = 6\<rparr>\<rparr>) - x (B \<lparr>A = \<lparr>x = 0, y = 5\<rparr>, B = \<lparr>x = 3, y = 6\<rparr>\<rparr>)\<bar> < epsilon"
    by (simp add: epsilon_def)
  have nh: "\<not> \<bar>y (A \<lparr>A = \<lparr>x = 0, y = 5\<rparr>, B = \<lparr>x = 3, y = 6\<rparr>\<rparr>) - y (B \<lparr>A = \<lparr>x = 0, y = 5\<rparr>, B = \<lparr>x = 3, y = 6\<rparr>\<rparr>)\<bar> < epsilon"
    by (simp add: epsilon_def)
  have v: "\<bar>x (A \<lparr>A = \<lparr>x = 1, y = 1\<rparr>, B = \<lparr>x = 1, y = 1\<rparr>\<rparr>) - x (B \<lparr>A = \<lparr>x = 1, y = 1\<rparr>, B = \<lparr>x = 1, y = 1\<rparr>\<rparr>)\<bar> < epsilon"
    by (simp add: epsilon_def)
  have h: "\<bar>y (A \<lparr>A = \<lparr>x = 1, y = 1\<rparr>, B = \<lparr>x = 1, y = 1\<rparr>\<rparr>) - y (B \<lparr>A = \<lparr>x = 1, y = 1\<rparr>, B = \<lparr>x = 1, y = 1\<rparr>\<rparr>)\<bar> < epsilon"
    by (simp add: epsilon_def)
  have two: "epsilon \<le> \<bar>2 :: real\<bar>"
    by (simp add: epsilon_def)
  have d1: "fdiv (x (B \<lparr>A = \<lparr>x = 0, y = 5\<rparr>, B = \<lparr>x = 3, y = 6\<rparr>\<rparr>) - x (A \<lparr>A = \<lparr>x = 0, y = 5\<rparr>, B = \<lparr>x = 3, y = 6\<rparr>\<rparr>)) (y (B \<lparr>A = \<lparr>x = 0, y = 5\<rparr>, B = \<lparr>x = 3, y = 6\<rparr>\<rparr>) - y (A \<lparr>A = \<lparr>x = 0, y = 5\<rparr>, B = \<lparr>x = 3, y = 6\<rparr>\<rparr>)) = Inr 3"
    by (simp add: fdiv_def)
  have d2: "fdiv (y (B \<lparr>A = \<lparr>x = 0, y = 5\<rparr>, B = \<lparr>x = 3, y = 6\<rparr>\<rparr>) - y (A \<lparr>A = \<lparr>x = 0, y = 5\<rparr>, B = \<lparr>x = 3, y = 6\<rparr>\<rparr>)) (x (B \<lparr>A = \<lparr>x = 0, y = 5\<rparr>, B = \<lparr>x = 3, y = 6\<rparr>\<rparr>) - x (A \<lparr>A = \<lparr>x = 0, y = 5\<rparr>, B = \<lparr>x = 3, y = 6\<rparr>\<rparr>)) = Inr (1 / 3)"
    by (simp add: fdiv_def)
  have "x_intercept \<lparr>A = \<lparr>x = 0, y = 5\<rparr>, B = \<lparr>x = 3, y = 6\<rparr>\<rparr> = Inr (- 15) \<and> y_intercept \<lparr>A = \<lparr>x = 0, y = 5\<rparr>, B = \<lparr>x = 3, y = 6\<rparr>\<rparr> = Inr 5"
    using nv nh divisors_at_least_epsilon [of "\<lparr>A = \<lparr>x = 0, y = 5\<rparr>, B = \<lparr>x = 3, y = 6\<rparr>\<rparr>"] unfolding d1 d2 by simp
  then show ?thesis
    using nv nh v h two divisors_at_least_epsilon [of "\<lparr>A = \<lparr>x = 0, y = 5\<rparr>, B = \<lparr>x = 3, y = 6\<rparr>\<rparr>"] divisors_at_least_epsilon [of "\<lparr>A = \<lparr>x = 1, y = 1\<rparr>, B = \<lparr>x = 1, y = 1\<rparr>\<rparr>"]
    by blast
qed

section \<open>A constructed line that is both nearly vertical and nearly horizontal\<close>

lemma near_degenerate_norm:
  "113 / 10 ^ 12 \<le> norm_point (sub \<lparr>x = 8 / 10 ^ 11, y = 8 / 10 ^ 11\<rparr> \<lparr>x = 0, y = 0\<rparr>) \<and>
   norm_point (sub \<lparr>x = 8 / 10 ^ 11, y = 8 / 10 ^ 11\<rparr> \<lparr>x = 0, y = 0\<rparr>) \<le> 114 / 10 ^ 12"
  by (rule norm_point_bounds) (simp_all add: dot_def sub_def power2_eq_square)

lemma near_degenerate_valid:
  "mk_line \<lparr>x = 0, y = 0\<rparr> \<lparr>x = 8 / 10 ^ 11, y = 8 / 10 ^ 11\<rparr> = Inr \<lparr>A = \<lparr>x = 0, y = 0\<rparr>, B = \<lparr>x = 8 / 10 ^ 11, y = 8 / 10 ^ 11\<rparr>\<rparr>"
proof (rule mk_line_ok)
  show "epsilon \<le> norm_point (sub \<lparr>x = 8 / 10 ^ 11, y = 8 / 10 ^ 11\<rparr> \<lparr>x = 0, y = 0\<rparr>)"
    using near_degenerate_norm by (simp add: epsilon_def)
qed

text \<open>
  Claim C10. The points \<open>(0, 0)\<close> and \<open>(8e-11, 8e-11)\<close> pass the assertion of the
  constructor (their distance, about \<open>1.13e-10\<close>, is above \<open>epsilon\<close>) while both
  coordinate differences are below \<open>epsilon\<close>; and on every constructed line with both
  coordinate differences below \<open>epsilon\<close>, \<open>x_intercept\<close> and \<open>y_intercept\<close> return the
  largest finite double and \<open>sine\<close> returns \<open>1\<close>.
\<close>

theorem near_degenerate_line:
  "mk_line \<lparr>x = 0, y = 0\<rparr> \<lparr>x = 8 / 10 ^ 11, y = 8 / 10 ^ 11\<rparr> = Inr \<lparr>A = \<lparr>x = 0, y = 0\<rparr>, B = \<lparr>x = 8 / 10 ^ 11, y = 8 / 10 ^ 11\<rparr>\<rparr> \<and>
   113 / 10 ^ 12 \<le> norm_point (sub \<lparr>x = 8 / 10 ^ 11, y = 8 / 10 ^ 11\<rparr> \<lparr>x = 0, y = 0\<rparr>) \<and>
   norm_point (sub \<lparr>x = 8 / 10 ^ 11, y = 8 / 10 ^ 11\<rparr> \<lparr>x = 0, y = 0\<rparr>) \<le> 114 / 10 ^ 12 \<and>
   \<bar>x \<lparr>x = 0, y = 0\<rparr> - x \<lparr>x = 8 / 10 ^ 11, y = 8 / 10 ^ 11\<rparr>\<bar> < epsilon \<and>
   \<bar>y \<lparr>x = 0, y = 0\<rparr> - y \<lparr>x = 8 / 10 ^ 11, y = 8 / 10 ^ 11\<rparr>\<bar> < epsilon \<and>
   (mk_line P Q = Inr l \<and> \<bar>x P - x Q\<bar> < epsilon \<and> \<bar>y P - y Q\<bar> < epsilon \<longrightarrow>
      x_intercept l = Inr dbl_max \<and> y_intercept l = Inr dbl_max \<and> sine l = Inr 1)"
proof -
  have gen: "x_intercept l = Inr dbl_max \<and> y_intercept l = Inr dbl_max \<and> sine l = Inr 1"
    if h: "mk_line P Q = Inr l \<and> \<bar>x P - x Q\<bar> < epsilon \<and> \<bar>y P - y Q\<bar> < epsilon"
  proof -
    have l: "A l = P" "B l = Q"
      using h mk_line_Inr [of P Q l] by simp_all
    from h show ?thesis
      by (simp add: x_intercept_total y_intercept_total sine_total l)
  qed
  have "\<bar>x \<lparr>x = 0, y = 0\<rparr> - x \<lparr>x = 8 / 10 ^ 11, y = 8 / 10 ^ 11\<rparr>\<bar> < epsilon" "\<bar>y \<lparr>x = 0, y = 0\<rparr> - y \<lparr>x = 8 / 10 ^ 11, y = 8 / 10 ^ 11\<rparr>\<bar> < epsilon"
    by (simp_all add: epsilon_def)
  with near_degenerate_valid near_degenerate_norm gen show ?thesis
    by blast
qed

theorem near_degenerate_line_witness:
  "mk_line \<lparr>x = 0, y = 0\<rparr> \<lparr>x = 8 / 10 ^ 11, y = 8 / 10 ^ 11\<rparr>
     = Inr \<lparr>A = \<lparr>x = 0, y = 0\<rparr>, B = \<lparr>x = 8 / 10 ^ 11, y = 8 / 10 ^ 11\<rparr>\<rparr> \<and>
   \<bar>x \<lparr>x = 0, y = 0\<rparr> - x \<lparr>x = 8 / 10 ^ 11, y = 8 / 10 ^ 11\<rparr>\<bar> < epsilon \<and>
   \<bar>y \<lparr>x = 0, y = 0\<rparr> - y \<lparr>x = 8 / 10 ^ 11, y = 8 / 10 ^ 11\<rparr>\<bar> < epsilon \<and>
   x_intercept \<lparr>A = \<lparr>x = 0, y = 0\<rparr>, B = \<lparr>x = 8 / 10 ^ 11, y = 8 / 10 ^ 11\<rparr>\<rparr> = Inr dbl_max \<and>
   y_intercept \<lparr>A = \<lparr>x = 0, y = 0\<rparr>, B = \<lparr>x = 8 / 10 ^ 11, y = 8 / 10 ^ 11\<rparr>\<rparr> = Inr dbl_max \<and>
   sine \<lparr>A = \<lparr>x = 0, y = 0\<rparr>, B = \<lparr>x = 8 / 10 ^ 11, y = 8 / 10 ^ 11\<rparr>\<rparr> = Inr 1"
proof -
  have dx: "\<bar>x \<lparr>x = 0, y = 0\<rparr> - x \<lparr>x = 8 / 10 ^ 11, y = 8 / 10 ^ 11\<rparr>\<bar> < epsilon"
    by (simp add: epsilon_def)
  have dy: "\<bar>y \<lparr>x = 0, y = 0\<rparr> - y \<lparr>x = 8 / 10 ^ 11, y = 8 / 10 ^ 11\<rparr>\<bar> < epsilon"
    by (simp add: epsilon_def)
  show ?thesis
    using dx dy
      near_degenerate_line [of "\<lparr>x = 0, y = 0\<rparr>" "\<lparr>x = 8 / 10 ^ 11, y = 8 / 10 ^ 11\<rparr>"
        "\<lparr>A = \<lparr>x = 0, y = 0\<rparr>, B = \<lparr>x = 8 / 10 ^ 11, y = 8 / 10 ^ 11\<rparr>\<rparr>"]
    by blast
qed

section \<open>Line equality\<close>

lemma r0_crosses_sA:
  "crosses \<lparr>A = \<lparr>x = 0, y = 0\<rparr>, B = \<lparr>x = 1, y = 0\<rparr>\<rparr> \<lparr>x = 1000000, y = 1\<rparr>"
proof -
  let ?C = "\<lparr>x = 1000000, y = 1\<rparr>"
  let ?P = "\<lparr>x = 0, y = 0\<rparr>"
  let ?Q = "\<lparr>x = 1, y = 0\<rparr>"
  define bc where "bc = norm_point (sub ?C ?Q)"
  have ab: "norm_point (sub ?Q ?P) = 1"
    by (simp add: sub_def norm_point_x_axis)
  have d: "dot (sub ?Q ?P) (sub ?C ?Q) = 999999"
    by (simp add: sub_def dot_def)
  have "999999 \<le> norm_point (sub ?C ?Q) \<and> norm_point (sub ?C ?Q) \<le> 999999 + 1 / 10 ^ 5"
    by (rule norm_point_bounds) (simp_all add: sub_def dot_def power2_eq_square)
  then have bc: "999999 \<le> bc" "bc \<le> 999999 + 1 / 10 ^ 5"
    by (simp_all add: bc_def)
  then have "\<bar>\<bar>999999 :: real\<bar> - 1 * bc\<bar> < epsilon * 1 * bc"
    by (simp add: epsilon_def)
  then show ?thesis
    unfolding crosses_unfold ab d bc_def by blast
qed

lemma r0_crosses_sB:
  "crosses \<lparr>A = \<lparr>x = 0, y = 0\<rparr>, B = \<lparr>x = 1, y = 0\<rparr>\<rparr> \<lparr>x = 1000000, y = 2\<rparr>"
proof -
  let ?C = "\<lparr>x = 1000000, y = 2\<rparr>"
  let ?P = "\<lparr>x = 0, y = 0\<rparr>"
  let ?Q = "\<lparr>x = 1, y = 0\<rparr>"
  define bc where "bc = norm_point (sub ?C ?Q)"
  have ab: "norm_point (sub ?Q ?P) = 1"
    by (simp add: sub_def norm_point_x_axis)
  have d: "dot (sub ?Q ?P) (sub ?C ?Q) = 999999"
    by (simp add: sub_def dot_def)
  have "999999 \<le> norm_point (sub ?C ?Q) \<and> norm_point (sub ?C ?Q) \<le> 999999 + 1 / 10 ^ 5"
    by (rule norm_point_bounds) (simp_all add: sub_def dot_def power2_eq_square)
  then have bc: "999999 \<le> bc" "bc \<le> 999999 + 1 / 10 ^ 5"
    by (simp_all add: bc_def)
  then have "\<bar>\<bar>999999 :: real\<bar> - 1 * bc\<bar> < epsilon * 1 * bc"
    by (simp add: epsilon_def)
  then show ?thesis
    unfolding crosses_unfold ab d bc_def by blast
qed

lemma s0_misses_rA:
  "\<not> crosses \<lparr>A = \<lparr>x = 1000000, y = 1\<rparr>, B = \<lparr>x = 1000000, y = 2\<rparr>\<rparr> \<lparr>x = 0, y = 0\<rparr>"
proof -
  let ?C = "\<lparr>x = 0, y = 0\<rparr>"
  let ?P = "\<lparr>x = 1000000, y = 1\<rparr>"
  let ?Q = "\<lparr>x = 1000000, y = 2\<rparr>"
  define bc where "bc = norm_point (sub ?C ?Q)"
  have nP: "\<not> point_eq ?P ?C"
    by (rule point_eq_far_x) (simp add: epsilon_def)
  have nQ: "\<not> point_eq ?Q ?C"
    by (rule point_eq_far_x) (simp add: epsilon_def)
  have ab: "norm_point (sub ?Q ?P) = 1"
    by (simp add: sub_def norm_point_y_axis)
  have d: "dot (sub ?Q ?P) (sub ?C ?Q) = - 2"
    by (simp add: sub_def dot_def)
  have "1000000 \<le> norm_point (sub ?C ?Q) \<and> norm_point (sub ?C ?Q) \<le> 1000001"
    by (rule norm_point_bounds) (simp_all add: sub_def dot_def power2_eq_square)
  then have bc: "1000000 \<le> bc" "bc \<le> 1000001"
    by (simp_all add: bc_def)
  then have "\<not> \<bar>\<bar>- 2 :: real\<bar> - 1 * bc\<bar> < epsilon * 1 * bc"
    by (simp add: epsilon_def)
  then show ?thesis
    unfolding crosses_unfold ab d bc_def using nP nQ by blast
qed

text \<open>
  Claim C2. Line equality is symmetric: \<open>r == s\<close> if and only if \<open>s == r\<close>. The operator
  is documented as returning true if \<open>r\<close> and \<open>s\<close> are the same line, a symmetric
  relation, and it does not keep to its documentation. Let \<open>r\<close> be the horizontal line
  constructed from \<open>(0, 0)\<close> and \<open>(1, 0)\<close> and \<open>s\<close> the vertical line constructed from
  \<open>(1000000, 1)\<close> and \<open>(1000000, 2)\<close>. Seen from \<open>(1, 0)\<close>, both points of \<open>s\<close> are within
  an angle of about \<open>2e-6\<close> of the direction of \<open>r\<close>, so \<open>r\<close> crosses both and \<open>r == s\<close>
  is true, for two perpendicular lines; seen from \<open>(1000000, 2)\<close>, the point \<open>(0, 0)\<close> is
  almost at a right angle to the direction of \<open>s\<close>, so \<open>s\<close> does not cross it and
  \<open>s == r\<close> is false.
\<close>

theorem line_eq_asymmetric:
  "mk_line \<lparr>x = 0, y = 0\<rparr> \<lparr>x = 1, y = 0\<rparr> = Inr \<lparr>A = \<lparr>x = 0, y = 0\<rparr>, B = \<lparr>x = 1, y = 0\<rparr>\<rparr> \<and>
   mk_line \<lparr>x = 1000000, y = 1\<rparr> \<lparr>x = 1000000, y = 2\<rparr>
     = Inr \<lparr>A = \<lparr>x = 1000000, y = 1\<rparr>, B = \<lparr>x = 1000000, y = 2\<rparr>\<rparr> \<and>
   line_eq \<lparr>A = \<lparr>x = 0, y = 0\<rparr>, B = \<lparr>x = 1, y = 0\<rparr>\<rparr>
           \<lparr>A = \<lparr>x = 1000000, y = 1\<rparr>, B = \<lparr>x = 1000000, y = 2\<rparr>\<rparr> \<and>
   \<not> line_eq \<lparr>A = \<lparr>x = 1000000, y = 1\<rparr>, B = \<lparr>x = 1000000, y = 2\<rparr>\<rparr>
             \<lparr>A = \<lparr>x = 0, y = 0\<rparr>, B = \<lparr>x = 1, y = 0\<rparr>\<rparr>"
proof -
  have "mk_line \<lparr>x = 0, y = 0\<rparr> \<lparr>x = 1, y = 0\<rparr> = Inr \<lparr>A = \<lparr>x = 0, y = 0\<rparr>, B = \<lparr>x = 1, y = 0\<rparr>\<rparr>"
    by (rule mk_line_horizontal) (simp add: epsilon_def)
  moreover have "mk_line \<lparr>x = 1000000, y = 1\<rparr> \<lparr>x = 1000000, y = 2\<rparr>
     = Inr \<lparr>A = \<lparr>x = 1000000, y = 1\<rparr>, B = \<lparr>x = 1000000, y = 2\<rparr>\<rparr>"
    by (rule mk_line_vertical) (simp add: epsilon_def)
  moreover have "line_eq \<lparr>A = \<lparr>x = 0, y = 0\<rparr>, B = \<lparr>x = 1, y = 0\<rparr>\<rparr>
           \<lparr>A = \<lparr>x = 1000000, y = 1\<rparr>, B = \<lparr>x = 1000000, y = 2\<rparr>\<rparr>"
    using r0_crosses_sA r0_crosses_sB by (simp add: line_eq_def)
  moreover have "\<not> line_eq \<lparr>A = \<lparr>x = 1000000, y = 1\<rparr>, B = \<lparr>x = 1000000, y = 2\<rparr>\<rparr>
             \<lparr>A = \<lparr>x = 0, y = 0\<rparr>, B = \<lparr>x = 1, y = 0\<rparr>\<rparr>"
    using s0_misses_rA by (simp add: line_eq_def)
  ultimately show ?thesis by blast
qed

end
